theory Spec2Isabelle
  imports Main
begin

section \<open>JavaScript values\<close>

text \<open>
  The program is JavaScript. Its values are modelled in two layers.
  \<^item> \<open>prim\<close>: the primitive values. Numbers are the integers the program passes around
    (primary keys); no arithmetic is done on them.
  \<^item> \<open>jsval\<close>: a value as a tree, for result rows and mapped entities, where no two
    references to one object are ever observed. An object is its list of properties in
    insertion order.
  Request payloads are mutated in place through aliases, so they live in an explicit
  store (see the section on payloads).

  Property names are column and table names: the model covers names that are not array
  indices (not made of digits only), contain no brackets and are not names of
  \<open>Object.prototype\<close>, for which lodash's path syntax is the split at dots and an object
  lists its properties in insertion order. The values of a result row are primitives
  (a date comes as its string).
\<close>

datatype prim = JUndefined | JNull | JBool bool | JNum int | JStr string

datatype jsval = Prim prim | Object "(string \<times> jsval) list" | Array "jsval list"

text \<open>JavaScript truthiness (\<open>!!v\<close>).\<close>

fun truthy_prim :: "prim \<Rightarrow> bool" where
  "truthy_prim JUndefined = False"
| "truthy_prim JNull = False"
| "truthy_prim (JBool b) = b"
| "truthy_prim (JNum n) = (n \<noteq> 0)"
| "truthy_prim (JStr s) = (s \<noteq> [])"

fun truthy :: "jsval \<Rightarrow> bool" where
  "truthy (Prim p) = truthy_prim p"
| "truthy (Object kvs) = True"
| "truthy (Array xs) = True"

datatype error =
    TypeError string
  | Error string
  | InvalidModelInputError "string list"
  | RelationValidationFailure string
  | ExecutionFailure string

section \<open>Payloads in the store\<close>

text \<open>
  A request payload is a graph of objects and arrays that \<open>create\<close> and \<open>update\<close> mutate in
  place. A payload value is a primitive or a reference; the store maps an address to a
  cell, and a new cell is allocated at the end.
\<close>

type_synonym addr = nat

datatype jv = Val prim | Ref addr

datatype cell = Obj "(string \<times> jv) list" | Arr "jv list"

type_synonym heap = "cell list"

section \<open>The entity definition\<close>

text \<open>
  A column descriptor is one row of \<open>DESCRIBE table\<close>. The source reads its \<open>Field\<close>;
  nullability and default are read by \<open>mysqlService.columnIsRequired\<close>.
\<close>

record column =
  Field :: string
  col_type :: string
  col_nullable :: bool
  col_key :: string
  col_default :: "string option"
  col_extra :: string

text \<open>
  \<open>Relationship\<close> (relationship.js) is not among the sources. The model reads two things
  of it: the property \<open>tableName\<close> and the method \<open>validateDataForCreate\<close>, which either
  returns or throws; the method is a parameter of the descriptor.
\<close>

record relationship =
  relation_tableName :: string
  validateDataForCreate :: "heap \<Rightarrow> jv \<Rightarrow> error option"

text \<open>The field \<open>fields\<close> of the source is \<open>fields'\<close> here (the name is taken by the record package).\<close>

record model =
  name :: string
  capitalizedName :: string
  tableName :: string
  fields' :: "column list"
  plainFields :: "string list"
  updateableFields :: "string list"
  requiredFields :: "string list"
  hasCreatedAtTimestamp :: bool
  hasUpdatedAtTimestamp :: bool
  relations :: "(string \<times> relationship) list"
  attributes :: "(string \<times> relationship) list"

text \<open>
  Modelled from the spec: \<open>mysqlService.columnIsRequired\<close> and
  \<open>mysqlService.getColumnName\<close> (mysql-service.js is not among the sources). The spec:
  required fields are the ``columns that are non-nullable and have no default''.
\<close>

definition columnIsRequired :: "column \<Rightarrow> bool" where
  "columnIsRequired c = (\<not> col_nullable c \<and> col_default c = None)"

definition getColumnName :: "column \<Rightarrow> string" where
  "getColumnName c = Field c"

text \<open>lodash \<open>_.without(array, ...values)\<close>: the array without the given values.\<close>

fun without :: "'a list \<Rightarrow> 'a list \<Rightarrow> 'a list" where
  "without [] vs = []"
| "without (x # xs) vs = (if x \<in> set vs then without xs vs else x # without xs vs)"

text \<open>
  The constructor. \<open>pluralize.singular\<close> and \<open>_.capitalize\<close> are library functions and
  are parameters here. \<open>relations\<close> and \<open>attributes\<close> start as empty maps.
\<close>

definition Model :: "(string \<Rightarrow> string) \<Rightarrow> (string \<Rightarrow> string) \<Rightarrow> string \<Rightarrow> column list \<Rightarrow> model" where
  "Model singular capitalize nm fs =
     \<lparr> name = singular nm,
       capitalizedName = capitalize (singular nm),
       tableName = nm,
       fields' = fs,
       plainFields = map Field fs,
       updateableFields = without (map Field fs) [''id'', ''created_at''],
       requiredFields = map getColumnName (filter columnIsRequired fs),
       hasCreatedAtTimestamp = (''created_at'' \<in> set (map Field fs)),
       hasUpdatedAtTimestamp = (''updated_at'' \<in> set (map Field fs)),
       relations = [],
       attributes = [] \<rparr>"

text \<open>\<open>addRelationship\<close>: \<open>this.relations.set(relationName, relationship)\<close>.\<close>

fun map_set :: "(string \<times> 'v) list \<Rightarrow> string \<Rightarrow> 'v \<Rightarrow> (string \<times> 'v) list" where
  "map_set [] k v = [(k, v)]"
| "map_set ((k', v') # kvs) k v =
     (if k' = k then (k, v) # kvs else (k', v') # map_set kvs k v)"

definition addRelationship :: "string \<Rightarrow> relationship \<Rightarrow> model \<Rightarrow> model" where
  "addRelationship relationName relationship m =
     m \<lparr> relations := map_set (relations m) relationName relationship \<rparr>"

section \<open>Strings, properties and lodash's set\<close>

text \<open>\<open>s.split(c)\<close> for a one-character separator: never empty, \<open>"".split(",")\<close> is \<open>[""]\<close>.\<close>

fun str_split :: "char \<Rightarrow> string \<Rightarrow> string list" where
  "str_split c [] = [[]]"
| "str_split c (x # xs) =
     (if x = c then [] # str_split c xs
      else (x # hd (str_split c xs)) # tl (str_split c xs))"

text \<open>\<open>String(i)\<close> for an array index.\<close>

fun string_of_nat :: "nat \<Rightarrow> string" where
  "string_of_nat n =
     (if n < 10 then [char_of (48 + n)]
      else string_of_nat (n div 10) @ [char_of (48 + n mod 10)])"

declare string_of_nat.simps [simp del]

text \<open>\<open>obj[k]\<close> and \<open>obj[k] = v\<close> on a tree value; reading a missing property is \<open>undefined\<close>.\<close>

fun prop_of :: "jsval \<Rightarrow> string \<Rightarrow> jsval" where
  "prop_of (Object kvs) k = (case map_of kvs k of Some v \<Rightarrow> v | None \<Rightarrow> Prim JUndefined)"
| "prop_of (Array xs) k = Prim JUndefined"
| "prop_of (Prim p) k = Prim JUndefined"

fun assign_prop :: "jsval \<Rightarrow> string \<Rightarrow> jsval \<Rightarrow> jsval" where
  "assign_prop (Object kvs) k v = Object (map_set kvs k v)"
| "assign_prop (Array xs) k v = Array xs"
| "assign_prop (Prim p) k v = Prim p"

text \<open>
  lodash \<open>baseSet(object, path, value)\<close>: walks the path, keeps a nested value that is an
  object and replaces any other by a new empty object, and assigns at the last key. A
  value that is not an object is returned as it is. No array is ever the target of a set
  in this program (arrays are only stored whole), so the model leaves an array as it is.
\<close>

fun baseSet :: "jsval \<Rightarrow> string list \<Rightarrow> jsval \<Rightarrow> jsval" where
  "baseSet (Object kvs) [] v = Object kvs"
| "baseSet (Object kvs) [k] v = Object (map_set kvs k v)"
| "baseSet (Object kvs) (k # k' # ks) v =
     Object (map_set kvs k
       (baseSet (case map_of kvs k of
                   Some (Object nested) \<Rightarrow> Object nested
                 | Some (Array nested) \<Rightarrow> Array nested
                 | _ \<Rightarrow> Object [])
          (k' # ks) v))"
| "baseSet (Array xs) ks v = Array xs"
| "baseSet (Prim p) ks v = Prim p"

definition lodash_set :: "jsval \<Rightarrow> string \<Rightarrow> jsval \<Rightarrow> jsval" where
  "lodash_set object path v = baseSet object (str_split CHR ''.'' path) v"

section \<open>The row mapper\<close>

text \<open>\<open>result[index]\<close> and \<open>result[index] = v\<close> on an array (a write past the end pads).\<close>

definition array_get :: "jsval list \<Rightarrow> nat \<Rightarrow> jsval" where
  "array_get xs i = (if i < length xs then xs ! i else Prim JUndefined)"

definition array_set :: "jsval list \<Rightarrow> nat \<Rightarrow> jsval \<Rightarrow> jsval list" where
  "array_set xs i v =
     (if i < length xs then xs[i := v]
      else xs @ replicate (i - length xs) (Prim JUndefined) @ [v])"

text \<open>
  The inner loop of \<open>parseRelationCollection\<close>:
  \<^verbatim>\<open>parsedValue.forEach((relationValueEntry, index) => {
    result[index] = _.set(result[index] || {}, key, relationValueEntry || null); });\<close>
\<close>

fun assign_column :: "string \<Rightarrow> jsval list \<Rightarrow> nat \<Rightarrow> jsval list \<Rightarrow> jsval list" where
  "assign_column key [] index result = result"
| "assign_column key (relationValueEntry # es) index result =
     assign_column key es (Suc index)
       (array_set result index
          (lodash_set
             (if truthy (array_get result index) then array_get result index else Object [])
             key
             (if truthy relationValueEntry then relationValueEntry else Prim JNull)))"

text \<open>
  \<open>(value || "").split(",")\<close> for a value that is not an object: a falsy value splits the
  empty string, a string splits, and any other value has no \<open>split\<close>.
\<close>

definition split_value :: "prim \<Rightarrow> error + jsval list" where
  "split_value value =
     (if \<not> truthy_prim value then Inr [Prim (JStr [])]
      else (case value of
              JStr s \<Rightarrow> Inr (map (\<lambda>x. Prim (JStr x)) (str_split CHR '','' s))
            | _ \<Rightarrow> Inl (TypeError ''(value || \"\").split is not a function'')))"

text \<open>
  \<open>parseRelationCollection\<close> reduces over \<open>Object.entries(relationship)\<close>, starting from
  the empty array. \<open>parse_entries\<close> is the reduce over an object's entries and
  \<open>parse_items\<close> over an array's (its keys are the indices). The entries of a string are
  its characters; a number or boolean has none; \<open>null\<close> and \<open>undefined\<close> have no entries
  to take.
\<close>

fun parseRelationCollection :: "jsval \<Rightarrow> error + jsval list"
  and parse_entries :: "(string \<times> jsval) list \<Rightarrow> jsval list \<Rightarrow> error + jsval list"
  and parse_items :: "nat \<Rightarrow> jsval list \<Rightarrow> jsval list \<Rightarrow> error + jsval list"
where
  "parseRelationCollection (Object kvs) = parse_entries kvs []"
| "parseRelationCollection (Array xs) = parse_items 0 xs []"
| "parseRelationCollection (Prim p) =
     (case p of
        JStr s \<Rightarrow>
          Inr (fold (\<lambda>(i, c) result.
                  assign_column (string_of_nat i)
                    (map (\<lambda>x. Prim (JStr x)) (str_split CHR '','' [c])) 0 result)
                (zip [0 ..< length s] s) [])
      | JUndefined \<Rightarrow> Inl (TypeError ''Cannot convert undefined or null to object'')
      | JNull \<Rightarrow> Inl (TypeError ''Cannot convert undefined or null to object'')
      | _ \<Rightarrow> Inr [])"
| "parse_entries [] result = Inr result"
| "parse_entries ((key, Prim p) # rest) result =
     (case split_value p of
        Inl e \<Rightarrow> Inl e
      | Inr parsedValue \<Rightarrow> parse_entries rest (assign_column key parsedValue 0 result))"
| "parse_entries ((key, Object kvs) # rest) result =
     (case parseRelationCollection (Object kvs) of
        Inl e \<Rightarrow> Inl e
      | Inr parsedValue \<Rightarrow> parse_entries rest (assign_column key parsedValue 0 result))"
| "parse_entries ((key, Array xs) # rest) result =
     (case parseRelationCollection (Array xs) of
        Inl e \<Rightarrow> Inl e
      | Inr parsedValue \<Rightarrow> parse_entries rest (assign_column key parsedValue 0 result))"
| "parse_items i [] result = Inr result"
| "parse_items i (Prim p # rest) result =
     (case split_value p of
        Inl e \<Rightarrow> Inl e
      | Inr parsedValue \<Rightarrow>
          parse_items (Suc i) rest (assign_column (string_of_nat i) parsedValue 0 result))"
| "parse_items i (Object kvs # rest) result =
     (case parseRelationCollection (Object kvs) of
        Inl e \<Rightarrow> Inl e
      | Inr parsedValue \<Rightarrow>
          parse_items (Suc i) rest (assign_column (string_of_nat i) parsedValue 0 result))"
| "parse_items i (Array xs # rest) result =
     (case parseRelationCollection (Array xs) of
        Inl e \<Rightarrow> Inl e
      | Inr parsedValue \<Rightarrow>
          parse_items (Suc i) rest (assign_column (string_of_nat i) parsedValue 0 result))"

text \<open>
  The first loop of \<open>rawSQLToModel\<close>, one entry of the raw row:
  \<^verbatim>\<open>const [_firstLevelProp, secondLevelProp] = key.split(".");
  const valueShouldBeOmitted = secondLevelProp && !value;
  return valueShouldBeOmitted ? partialModel : _.set(partialModel, key, value);\<close>
  A raw row is the list of its entries; its values are primitives.
\<close>

type_synonym row = "(string \<times> prim) list"

definition rawSQLToModel_step :: "jsval \<Rightarrow> string \<times> prim \<Rightarrow> jsval" where
  "rawSQLToModel_step partialModel entry =
     (let key = fst entry; value = snd entry;
          secondLevelProp = (case str_split CHR ''.'' key of
                               _ # second # _ \<Rightarrow> Prim (JStr second)
                             | _ \<Rightarrow> Prim JUndefined);
          valueShouldBeOmitted = (truthy secondLevelProp \<and> \<not> truthy_prim value)
      in if valueShouldBeOmitted then partialModel
         else lodash_set partialModel key (Prim value))"

text \<open>
  The second loop:
  \<^verbatim>\<open>this.relations.forEach((relation) => {
    model[relation.tableName] =
      this.parseRelationCollection(model[relation.tableName] || []); });\<close>
\<close>

fun parse_relations :: "relationship list \<Rightarrow> jsval \<Rightarrow> error + jsval" where
  "parse_relations [] model = Inr model"
| "parse_relations (relation # rest) model =
     (case parseRelationCollection
             (if truthy (prop_of model (relation_tableName relation))
              then prop_of model (relation_tableName relation) else Array [])
      of Inl e \<Rightarrow> Inl e
       | Inr parsed \<Rightarrow>
           parse_relations rest (assign_prop model (relation_tableName relation) (Array parsed)))"

definition rawSQLToModel :: "model \<Rightarrow> row \<Rightarrow> error + jsval" where
  "rawSQLToModel m rawOutput =
     parse_relations (map snd (relations m)) (foldl rawSQLToModel_step (Object []) rawOutput)"

section \<open>Payload operations in the store\<close>

text \<open>
  The payload is an object of the store, given by its address. An address outside the
  store does not occur in a run; the model reads it as an empty object.
\<close>

definition cell_at :: "heap \<Rightarrow> addr \<Rightarrow> cell" where
  "cell_at h a = (if a < length h then h ! a else Obj [])"

definition alloc :: "heap \<Rightarrow> cell \<Rightarrow> addr \<times> heap" where
  "alloc h c = (length h, h @ [c])"

text \<open>The own properties of the object at an address (an array has its indices).\<close>

definition props_at :: "heap \<Rightarrow> addr \<Rightarrow> (string \<times> jv) list" where
  "props_at h a =
     (case cell_at h a of
        Obj kvs \<Rightarrow> kvs
      | Arr xs \<Rightarrow> zip (map string_of_nat [0 ..< length xs]) xs)"

definition prop_at :: "heap \<Rightarrow> addr \<Rightarrow> string \<Rightarrow> jv" where
  "prop_at h a k = (case map_of (props_at h a) k of Some v \<Rightarrow> v | None \<Rightarrow> Val JUndefined)"

text \<open>\<open>delete data.id\<close>: removes the property from the object itself.\<close>

definition delete_prop :: "heap \<Rightarrow> addr \<Rightarrow> string \<Rightarrow> heap" where
  "delete_prop h a k =
     (case cell_at h a of
        Obj kvs \<Rightarrow> h[a := Obj (filter (\<lambda>e. fst e \<noteq> k) kvs)]
      | Arr xs \<Rightarrow> h)"

text \<open>The elements of an array value; \<open>None\<close> when the value is not an array.\<close>

definition array_elems :: "heap \<Rightarrow> jv \<Rightarrow> jv list option" where
  "array_elems h v =
     (case v of
        Ref a \<Rightarrow> (if a < length h then (case h ! a of Arr xs \<Rightarrow> Some xs | Obj kvs \<Rightarrow> None)
                  else None)
      | Val p \<Rightarrow> None)"

text \<open>
  \<open>_.set(relationEntry, key, id)\<close> on a payload value, for a key without dots: an object is
  changed in place, a primitive is returned as it is. (A row that is itself an array would
  get a named property, which the model's arrays do not carry.)
\<close>

definition store_set :: "heap \<Rightarrow> jv \<Rightarrow> string \<Rightarrow> jv \<Rightarrow> heap" where
  "store_set h object key v =
     (case object of
        Ref b \<Rightarrow> (if b < length h
                  then (case h ! b of Obj kvs \<Rightarrow> h[b := Obj (map_set kvs key v)] | Arr xs \<Rightarrow> h)
                  else h)
      | Val p \<Rightarrow> h)"

text \<open>
  \<open>getValidFields\<close>: \<open>_.pick(data, this.updateableFields)\<close>, a new object with those of the
  listed properties that \<open>data\<close> has, in the order of the list.
\<close>

definition pick :: "(string \<times> jv) list \<Rightarrow> string list \<Rightarrow> (string \<times> jv) list" where
  "pick props paths =
     foldl (\<lambda>result k. case map_of props k of Some v \<Rightarrow> map_set result k v | None \<Rightarrow> result)
       [] paths"

definition getValidFields :: "model \<Rightarrow> heap \<Rightarrow> addr \<Rightarrow> (string \<times> jv) list" where
  "getValidFields m h data = pick (props_at h data) (updateableFields m)"

text \<open>
  \<open>signRelationsDataWithSeniorId(data, id)\<close>. A relation to write is the pair of
  \<open>relationName\<close> and \<open>relationData\<close>. The inner \<open>map\<close> stamps each entry in place and
  returns a new array of the same entries; \<open>relationData.map\<close> does not exist when the
  value is not an array, which is a \<open>TypeError\<close> (the messages are V8's). What was
  stamped before the error stays.
\<close>

definition no_map :: "jv \<Rightarrow> error" where
  "no_map relationData =
     (case relationData of
        Val JNull \<Rightarrow> TypeError ''Cannot read properties of null (reading 'map')''
      | Val JUndefined \<Rightarrow> TypeError ''Cannot read properties of undefined (reading 'map')''
      | _ \<Rightarrow> TypeError ''relation.relationData.map is not a function'')"

fun sign_entries :: "string \<Rightarrow> prim \<Rightarrow> jv list \<Rightarrow> heap \<Rightarrow> heap" where
  "sign_entries key id' [] h = h"
| "sign_entries key id' (relationEntry # rest) h =
     sign_entries key id' rest (store_set h relationEntry key (Val id'))"

fun signRelationsDataWithSeniorId ::
  "model \<Rightarrow> (string \<times> jv) list \<Rightarrow> prim \<Rightarrow> heap \<Rightarrow> (error + (string \<times> jv) list) \<times> heap" where
  "signRelationsDataWithSeniorId m [] id' h = (Inr [], h)"
| "signRelationsDataWithSeniorId m ((relationName, relationData) # rest) id' h =
     (case array_elems h relationData of
        None \<Rightarrow> (Inl (no_map relationData), h)
      | Some entries \<Rightarrow>
          (case alloc (sign_entries (''id_'' @ name m) id' entries h) (Arr entries) of
             (a, h') \<Rightarrow>
               (case signRelationsDataWithSeniorId m rest id' h' of
                  (Inl e, h'') \<Rightarrow> (Inl e, h'')
                | (Inr signed, h'') \<Rightarrow> (Inr ((relationName, Ref a) # signed), h''))))"

definition getRelationsToUpdate ::
  "model \<Rightarrow> addr \<Rightarrow> prim \<Rightarrow> heap \<Rightarrow> (error + (string \<times> jv) list) \<times> heap" where
  "getRelationsToUpdate m data signingId h =
     signRelationsDataWithSeniorId m
       (map (\<lambda>relationName. (relationName, prop_at h data relationName))
          (filter (\<lambda>relationName. relationName \<in> set (map fst (relations m)))
             (map fst (props_at h data))))
       signingId h"

section \<open>Statements and the execution adapter\<close>

text \<open>
  A statement is kept as its abstract syntax. \<open>Select_last t\<close> is
  \<open>SELECT * FROM t ORDER BY id DESC LIMIT 1\<close> and \<open>Delete_by_id t id\<close> is
  \<open>DELETE FROM t WHERE id = id\<close>, the two statements the entity writes itself.

  Modelled from the spec: \<open>QueryBuilder\<close> (query-builder.js is not among the sources). The
  other statements are what the spec says the builder returns: the get statement of an
  entity with its relations and an optional id; an INSERT of a field map; an UPDATE with
  a SET clause over every key of the fields it is given and a primary-key filter; a
  DELETE of the rows of a relation's link table whose senior foreign key equals an id;
  and one INSERT per row into the link table.
\<close>

datatype sql =
    Select_last string
  | Delete_by_id string prim
  | Get_statement string "string list" prim
  | Create_statement string "(string \<times> jv) list"
  | Update_statement string prim "(string \<times> jv) list"
  | Delete_relation_statement string string prim
  | Create_relation_entry string "(string \<times> jv) list"

definition QueryBuilder_get :: "model \<Rightarrow> prim \<Rightarrow> sql" where
  "QueryBuilder_get m id' =
     Get_statement (tableName m) (map (\<lambda>r. relation_tableName (snd r)) (relations m)) id'"

definition QueryBuilder_create :: "model \<Rightarrow> (string \<times> jv) list \<Rightarrow> sql" where
  "QueryBuilder_create m fs = Create_statement (tableName m) fs"

definition QueryBuilder_update :: "model \<Rightarrow> prim \<Rightarrow> (string \<times> jv) list \<Rightarrow> sql" where
  "QueryBuilder_update m id' fs = Update_statement (tableName m) id' fs"

definition QueryBuilder_deleteExistingRelation :: "model \<Rightarrow> prim \<Rightarrow> relationship \<Rightarrow> sql" where
  "QueryBuilder_deleteExistingRelation m id' relation =
     Delete_relation_statement (relation_tableName relation) (''id_'' @ name m) id'"

definition row_props :: "heap \<Rightarrow> jv \<Rightarrow> (string \<times> jv) list" where
  "row_props h v = (case v of Ref b \<Rightarrow> props_at h b | Val p \<Rightarrow> [])"

definition QueryBuilder_createRelationEntries :: "model \<Rightarrow> relationship \<Rightarrow> heap \<Rightarrow> jv \<Rightarrow> sql list" where
  "QueryBuilder_createRelationEntries m relation h newData =
     map (\<lambda>entry. Create_relation_entry (relation_tableName relation) (row_props h entry))
       (case array_elems h newData of Some entries \<Rightarrow> entries | None \<Rightarrow> [])"

text \<open>
  The execution adapter (\<open>mysqlService.runQuery\<close>) is outside the program: it is the
  parameter \<open>run\<close>, which takes a statement and the database and returns rows or an error,
  and the new database. The state of a run is the store, the database, the statements
  issued so far, and the pending statements: those that a task started without \<open>await\<close>
  issues only after the method has gone on. Statements are carried out in the order in
  which \<open>runQuery\<close> is called (one connection, first in first out).
\<close>

record 'db state =
  store :: heap
  db :: 'db
  trace :: "sql list"
  pending :: "sql list"

type_synonym 'db adapter = "sql \<Rightarrow> 'db \<Rightarrow> (error + row list) \<times> 'db"

definition runQuery :: "'db adapter \<Rightarrow> sql \<Rightarrow> 'db state \<Rightarrow> (error + row list) \<times> 'db state" where
  "runQuery run q s =
     (case run q (db s) of (r, d) \<Rightarrow> (r, s \<lparr> db := d, trace := trace s @ [q] \<rparr>))"

section \<open>The CRUD methods\<close>

text \<open>
  Each method takes the adapter, the entity and the state, and returns its result or the
  error it throws, with the new state. The parameter \<open>id\<close> of the source is \<open>id'\<close> here.
\<close>

fun map_result :: "('a \<Rightarrow> error + 'b) \<Rightarrow> 'a list \<Rightarrow> error + 'b list" where
  "map_result f [] = Inr []"
| "map_result f (x # xs) =
     (case f x of
        Inl e \<Rightarrow> Inl e
      | Inr y \<Rightarrow> (case map_result f xs of Inl e \<Rightarrow> Inl e | Inr ys \<Rightarrow> Inr (y # ys)))"

text \<open>
  \<^verbatim>\<open>async get(id = null) {
    const query = new QueryBuilder(this).get(id);
    const data = await mysqlService.runQuery(query);
    const result = data.map(this.rawSQLToModel);
    return id ? result[0] : result; }\<close>
\<close>

definition get :: "'db adapter \<Rightarrow> model \<Rightarrow> prim \<Rightarrow> 'db state \<Rightarrow> (error + jsval) \<times> 'db state" where
  "get run m id' s =
     (case runQuery run (QueryBuilder_get m id') s of
        (Inl e, s') \<Rightarrow> (Inl e, s')
      | (Inr data, s') \<Rightarrow>
          (case map_result (rawSQLToModel m) data of
             Inl e \<Rightarrow> (Inl e, s')
           | Inr result \<Rightarrow>
               (Inr (if truthy_prim id' then array_get result 0 else Array result), s')))"

text \<open>\<open>getLast\<close> returns \<open>data[0]\<close>, which is \<open>undefined\<close> (here \<open>None\<close>) for an empty table.\<close>

definition getLast :: "'db adapter \<Rightarrow> model \<Rightarrow> 'db state \<Rightarrow> (error + row option) \<times> 'db state" where
  "getLast run m s =
     (case runQuery run (Select_last (tableName m)) s of
        (Inl e, s') \<Rightarrow> (Inl e, s')
      | (Inr data, s') \<Rightarrow> (Inr (case data of [] \<Rightarrow> None | r # _ \<Rightarrow> Some r), s'))"

text \<open>
  \<^verbatim>\<open>async delete(id) {
    await mysqlService.runQuery(`DELETE FROM ${this.tableName} WHERE id = ${id}`);
    return { success: true }; }\<close>
\<close>

definition delete :: "'db adapter \<Rightarrow> model \<Rightarrow> prim \<Rightarrow> 'db state \<Rightarrow> (error + jsval) \<times> 'db state" where
  "delete run m id' s =
     (case runQuery run (Delete_by_id (tableName m) id') s of
        (Inl e, s') \<Rightarrow> (Inl e, s')
      | (Inr ack, s') \<Rightarrow> (Inr (Object [(''success'', Prim (JBool True))]), s'))"

text \<open>
  \<open>assignRelationData\<close> calls \<open>runQuery\<close> for each statement of
  \<open>createRelationEntries\<close> and awaits none of them: a failure reaches nobody.
\<close>

definition run_all :: "'db adapter \<Rightarrow> sql list \<Rightarrow> 'db state \<Rightarrow> 'db state" where
  "run_all run qs s = foldl (\<lambda>s' q. snd (runQuery run q s')) s qs"

definition assignRelationData :: "'db adapter \<Rightarrow> model \<Rightarrow> relationship \<Rightarrow> jv \<Rightarrow> 'db state \<Rightarrow> 'db state" where
  "assignRelationData run m relation newData s =
     run_all run (QueryBuilder_createRelationEntries m relation (store s) newData) s"

text \<open>
  The validation loop of \<open>create\<close>:
  \<^verbatim>\<open>relationsToInsert.forEach(({ relationName, relationData }) => {
    const relation = this.relations.get(relationName);
    if (!relation) { throw new Error(`Relation ${relationName} not found`); }
    relation.validateDataForCreate(relationData); });\<close>
\<close>

fun validate_for_create :: "model \<Rightarrow> heap \<Rightarrow> (string \<times> jv) list \<Rightarrow> error option" where
  "validate_for_create m h [] = None"
| "validate_for_create m h ((relationName, relationData) # rest) =
     (case map_of (relations m) relationName of
        None \<Rightarrow> Some (Error (''Relation '' @ relationName @ '' not found''))
      | Some relation \<Rightarrow>
          (case validateDataForCreate relation h relationData of
             Some e \<Rightarrow> Some e
           | None \<Rightarrow> validate_for_create m h rest))"

text \<open>
  The loop after the INSERT of \<open>create\<close>. Each callback runs \<open>assignRelationData\<close> as far as
  its statements are issued; nothing is awaited.
  \<^verbatim>\<open>signedRelationsData.forEach(async ({ relationName, relationData }) => {
    await this.assignRelationData(this.relations.get(relationName), relationData); });\<close>
\<close>

fun assign_all :: "'db adapter \<Rightarrow> model \<Rightarrow> (string \<times> jv) list \<Rightarrow> 'db state \<Rightarrow> 'db state" where
  "assign_all run m [] s = s"
| "assign_all run m ((relationName, relationData) # rest) s =
     assign_all run m rest
       (case map_of (relations m) relationName of
          None \<Rightarrow> s
        | Some relation \<Rightarrow> assignRelationData run m relation relationData s)"

text \<open>
  \<open>create\<close>, in the order of the source: the fields to write, the missing required fields,
  the relations to insert (signed with \<open>null\<close>, which stamps the payload), their
  validation, the check of the missing fields, the INSERT, \<open>getLast\<close>, the second signing
  with \<open>result.id\<close>, the relation rows, and the final \<open>get\<close>.
\<close>

definition create :: "'db adapter \<Rightarrow> model \<Rightarrow> addr \<Rightarrow> 'db state \<Rightarrow> (error + jsval) \<times> 'db state" where
  "create run m data s =
     (let fieldsToUpdate = getValidFields m (store s) data;
          missingRequiredFields =
            filter (\<lambda>field. field \<notin> set (map fst fieldsToUpdate)) (requiredFields m)
      in case getRelationsToUpdate m data JNull (store s) of
           (Inl e, h) \<Rightarrow> (Inl e, s \<lparr> store := h \<rparr>)
         | (Inr relationsToInsert, h) \<Rightarrow>
             (case validate_for_create m h relationsToInsert of
                Some e \<Rightarrow> (Inl e, s \<lparr> store := h \<rparr>)
              | None \<Rightarrow>
                  if missingRequiredFields \<noteq> []
                  then (Inl (InvalidModelInputError missingRequiredFields), s \<lparr> store := h \<rparr>)
                  else
                    (case runQuery run (QueryBuilder_create m fieldsToUpdate) (s \<lparr> store := h \<rparr>) of
                       (Inl e, s1) \<Rightarrow> (Inl e, s1)
                     | (Inr ack, s1) \<Rightarrow>
                         (case getLast run m s1 of
                            (Inl e, s2) \<Rightarrow> (Inl e, s2)
                          | (Inr None, s2) \<Rightarrow>
                              (Inl (TypeError ''Cannot read properties of undefined (reading 'id')''), s2)
                          | (Inr (Some result), s2) \<Rightarrow>
                              (let result_id =
                                     (case map_of result ''id'' of Some v \<Rightarrow> v | None \<Rightarrow> JUndefined)
                               in case signRelationsDataWithSeniorId m relationsToInsert result_id (store s2) of
                                    (Inl e, h') \<Rightarrow> (Inl e, s2 \<lparr> store := h' \<rparr>)
                                  | (Inr signedRelationsData, h') \<Rightarrow>
                                      get run m result_id
                                        (assign_all run m signedRelationsData (s2 \<lparr> store := h' \<rparr>)))))))"

text \<open>
  The validation loop of \<open>update\<close> has no check of the relation:
  \<^verbatim>\<open>this.relations.get(relationName).validateDataForCreate(relationData);\<close>
\<close>

fun validate_for_update :: "model \<Rightarrow> heap \<Rightarrow> (string \<times> jv) list \<Rightarrow> error option" where
  "validate_for_update m h [] = None"
| "validate_for_update m h ((relationName, relationData) # rest) =
     (case map_of (relations m) relationName of
        None \<Rightarrow> Some (TypeError ''Cannot read properties of undefined (reading 'validateDataForCreate')'')
      | Some relation \<Rightarrow>
          (case validateDataForCreate relation h relationData of
             Some e \<Rightarrow> Some e
           | None \<Rightarrow> validate_for_update m h rest))"

text \<open>
  The last loop of \<open>update\<close> starts one task per relation and awaits none:
  \<^verbatim>\<open>relationsToUpdate.forEach(async ({ relationName, relationData }) => {
    await this.overrideExistingRelationEntries(id, this.relations.get(relationName), relationData); });\<close>
  A task issues its DELETE at once (\<open>overrideExistingRelationEntries\<close> calls \<open>runQuery\<close>
  before its first \<open>await\<close>) and its INSERTs only after the DELETE has come back, which is
  after \<open>update\<close> has gone on to \<open>this.get(id)\<close>. So the DELETEs are issued here, and the
  INSERTs of every task whose DELETE succeeded are left pending; a failed DELETE ends its
  task, and the failure reaches nobody.
\<close>

fun override_all :: "'db adapter \<Rightarrow> model \<Rightarrow> prim \<Rightarrow> (string \<times> jv) list \<Rightarrow> 'db state \<Rightarrow> 'db state" where
  "override_all run m id' [] s = s"
| "override_all run m id' ((relationName, relationData) # rest) s =
     override_all run m id' rest
       (case map_of (relations m) relationName of
          None \<Rightarrow> s
        | Some relation \<Rightarrow>
            (case runQuery run (QueryBuilder_deleteExistingRelation m id' relation) s of
               (Inl e, s') \<Rightarrow> s'
             | (Inr ack, s') \<Rightarrow>
                 s' \<lparr> pending := pending s'
                        @ QueryBuilder_createRelationEntries m relation (store s') relationData \<rparr>))"

text \<open>
  \<open>update\<close>. The UPDATE is built from \<open>data\<close>, the payload itself (after \<open>delete data.id\<close>
  and the stamping), not from \<open>fieldsToUpdate\<close>:
  \<^verbatim>\<open>if (Object.keys(fieldsToUpdate).length > 0) {
    const query = new QueryBuilder(this).update(id, data);
    await mysqlService.runQuery(query); }\<close>
\<close>

definition update :: "'db adapter \<Rightarrow> model \<Rightarrow> prim \<Rightarrow> addr \<Rightarrow> 'db state \<Rightarrow> (error + jsval) \<times> 'db state" where
  "update run m id' data s =
     (let h0 = delete_prop (store s) data ''id'';
          fieldsToUpdate = getValidFields m h0 data
      in case getRelationsToUpdate m data id' h0 of
           (Inl e, h) \<Rightarrow> (Inl e, s \<lparr> store := h \<rparr>)
         | (Inr relationsToUpdate, h) \<Rightarrow>
             (case validate_for_update m h relationsToUpdate of
                Some e \<Rightarrow> (Inl e, s \<lparr> store := h \<rparr>)
              | None \<Rightarrow>
                  (case (if fieldsToUpdate \<noteq> []
                         then runQuery run (QueryBuilder_update m id' (props_at h data)) (s \<lparr> store := h \<rparr>)
                         else (Inr [], s \<lparr> store := h \<rparr>)) of
                     (Inl e, s1) \<Rightarrow> (Inl e, s1)
                   | (Inr ack, s1) \<Rightarrow>
                       get run m id' (override_all run m id' relationsToUpdate s1))))"

text \<open>The tasks left pending run later, in order; their failures reach nobody.\<close>

definition settle :: "'db adapter \<Rightarrow> 'db state \<Rightarrow> 'db state" where
  "settle run s = run_all run (pending s) (s \<lparr> pending := [] \<rparr>)"

section \<open>The routes\<close>

text \<open>
  A handler takes the request (the path parameter \<open>id\<close> and the address of the parsed
  body) and returns the response it sends: the status code and the body. The body is the
  JSON text of a value (\<open>res.end(JSON.stringify(data))\<close>, or \<open>send\<close> of an object), a plain
  text, or the message of an error (\<open>send(err.message)\<close>). Headers and the log are left
  out. \<open>res.sendStatus(code)\<close> is Express's: it sets the status and sends the status
  message of the code as the body (\<open>Not Found\<close> for 404).
\<close>

datatype body = Json jsval | Text string | Message error

record response =
  statusCode :: nat
  body :: body

record request =
  params_id :: string
  req_body :: addr

definition status_message :: "nat \<Rightarrow> string" where
  "status_message code =
     (if code = 200 then ''OK''
      else if code = 404 then ''Not Found''
      else if code = 500 then ''Internal Server Error''
      else string_of_nat code)"

definition sendStatus :: "nat \<Rightarrow> response" where
  "sendStatus code = \<lparr> statusCode = code, body = Text (status_message code) \<rparr>"

type_synonym 'db handler = "request \<Rightarrow> 'db state \<Rightarrow> response \<times> 'db state"

text \<open>\<open>GET /{tableName}\<close>\<close>

definition get_all_handler :: "'db adapter \<Rightarrow> model \<Rightarrow> 'db handler" where
  "get_all_handler run m req s =
     (case get run m JNull s of
        (Inl err, s') \<Rightarrow> (\<lparr> statusCode = 500, body = Message err \<rparr>, s')
      | (Inr data, s') \<Rightarrow> (\<lparr> statusCode = 200, body = Json data \<rparr>, s'))"

text \<open>
  \<open>GET /{tableName}/:id\<close>
  \<^verbatim>\<open>const data = await model.get(req.params.id);
  if (!data) { return res.status(404).send({ success: false, status: "Not found" }); }\<close>
\<close>

definition get_one_handler :: "'db adapter \<Rightarrow> model \<Rightarrow> 'db handler" where
  "get_one_handler run m req s =
     (case get run m (JStr (params_id req)) s of
        (Inl err, s') \<Rightarrow> (\<lparr> statusCode = 500, body = Message err \<rparr>, s')
      | (Inr data, s') \<Rightarrow>
          (if \<not> truthy data
           then (\<lparr> statusCode = 404,
                   body = Json (Object [(''success'', Prim (JBool False)),
                                        (''status'', Prim (JStr ''Not found''))]) \<rparr>, s')
           else (\<lparr> statusCode = 200, body = Json data \<rparr>, s')))"

text \<open>
  \<open>PUT /{tableName}/:id\<close>
  \<^verbatim>\<open>const target = await model.get(req.params.id);
  if (!target) { return res.sendStatus(404); }
  const result = await model.update(req.params.id, req.body);\<close>
\<close>

definition put_handler :: "'db adapter \<Rightarrow> model \<Rightarrow> 'db handler" where
  "put_handler run m req s =
     (case get run m (JStr (params_id req)) s of
        (Inl err, s') \<Rightarrow> (\<lparr> statusCode = 500, body = Message err \<rparr>, s')
      | (Inr target, s') \<Rightarrow>
          (if \<not> truthy target then (sendStatus 404, s')
           else (case update run m (JStr (params_id req)) (req_body req) s' of
                   (Inl err, s'') \<Rightarrow> (\<lparr> statusCode = 500, body = Message err \<rparr>, s'')
                 | (Inr result, s'') \<Rightarrow> (\<lparr> statusCode = 200, body = Json result \<rparr>, s''))))"

text \<open>\<open>POST /{tableName}\<close>\<close>

definition post_handler :: "'db adapter \<Rightarrow> model \<Rightarrow> 'db handler" where
  "post_handler run m req s =
     (case create run m (req_body req) s of
        (Inl err, s') \<Rightarrow> (\<lparr> statusCode = 500, body = Message err \<rparr>, s')
      | (Inr result, s') \<Rightarrow> (\<lparr> statusCode = 200, body = Json result \<rparr>, s'))"

text \<open>\<open>DELETE /{tableName}/:id\<close>\<close>

definition delete_handler :: "'db adapter \<Rightarrow> model \<Rightarrow> 'db handler" where
  "delete_handler run m req s =
     (case get run m (JStr (params_id req)) s of
        (Inl err, s') \<Rightarrow> (\<lparr> statusCode = 500, body = Message err \<rparr>, s')
      | (Inr target, s') \<Rightarrow>
          (if \<not> truthy target then (sendStatus 404, s')
           else (case delete run m (JStr (params_id req)) s' of
                   (Inl err, s'') \<Rightarrow> (\<lparr> statusCode = 500, body = Message err \<rparr>, s'')
                 | (Inr result, s'') \<Rightarrow> (\<lparr> statusCode = 200, body = Json result \<rparr>, s''))))"

text \<open>\<open>generate(model)\<close> registers the routes in this order.\<close>

definition generate :: "'db adapter \<Rightarrow> model \<Rightarrow> (string \<times> string \<times> 'db handler) list" where
  "generate run m =
     [(''GET'', ''/'' @ tableName m, get_all_handler run m),
      (''GET'', ''/'' @ tableName m @ ''/:id'', get_one_handler run m),
      (''PUT'', ''/'' @ tableName m @ ''/:id'', put_handler run m),
      (''POST'', ''/'' @ tableName m, post_handler run m),
      (''DELETE'', ''/'' @ tableName m @ ''/:id'', delete_handler run m)]"

section \<open>An adapter over tables in memory, and concrete data\<close>

text \<open>
  The theorems below hold for every adapter. Their concrete instances use this one: the
  database is a list of named tables, a table a list of rows; an INSERT into the
  entity's table numbers the new row; the get statement returns the entity's own
  columns (an entity without related rows), filtered by the id when one is given. A
  number and its decimal string are the same id, as in SQL.
\<close>

type_synonym tables = "(string \<times> row list) list"

definition rows_of :: "tables \<Rightarrow> string \<Rightarrow> row list" where
  "rows_of d t = (case map_of d t of Some rs \<Rightarrow> rs | None \<Rightarrow> [])"

definition scalars :: "(string \<times> jv) list \<Rightarrow> row" where
  "scalars fs = concat (map (\<lambda>e. case snd e of Val p \<Rightarrow> [(fst e, p)] | Ref a \<Rightarrow> []) fs)"

definition sql_eq :: "prim \<Rightarrow> prim \<Rightarrow> bool" where
  "sql_eq a b =
     (case (a, b) of
        (JNum n, JStr s) \<Rightarrow> 0 \<le> n \<and> string_of_nat (nat n) = s
      | (JStr s, JNum n) \<Rightarrow> 0 \<le> n \<and> string_of_nat (nat n) = s
      | _ \<Rightarrow> a = b)"

definition has :: "string \<Rightarrow> prim \<Rightarrow> row \<Rightarrow> bool" where
  "has k v r = (case map_of r k of Some w \<Rightarrow> sql_eq w v | None \<Rightarrow> False)"

fun table_store :: "tables adapter" where
  "table_store (Select_last t) d =
     (Inr (case rows_of d t of [] \<Rightarrow> [] | r # rs \<Rightarrow> [last (r # rs)]), d)"
| "table_store (Delete_by_id t i) d =
     (Inr [], map_set d t (filter (\<lambda>r. \<not> has ''id'' i r) (rows_of d t)))"
| "table_store (Get_statement t rels i) d =
     (Inr (if truthy_prim i then filter (has ''id'' i) (rows_of d t) else rows_of d t), d)"
| "table_store (Create_statement t fs) d =
     (Inr [], map_set d t
        (rows_of d t @ [(''id'', JNum (int (length (rows_of d t)) + 1)) # scalars fs]))"
| "table_store (Update_statement t i fs) d =
     (Inr [], map_set d t
        (map (\<lambda>r. if has ''id'' i r
                  then foldl (\<lambda>r' e. map_set r' (fst e) (snd e)) r (scalars fs) else r)
           (rows_of d t)))"
| "table_store (Delete_relation_statement t fk i) d =
     (Inr [], map_set d t (filter (\<lambda>r. \<not> has fk i r) (rows_of d t)))"
| "table_store (Create_relation_entry t fs) d =
     (Inr [], map_set d t (rows_of d t @ [scalars fs]))"

text \<open>An adapter that has lost its connection, and one that refuses every DELETE.\<close>

definition offline :: "tables adapter" where
  "offline q d = (Inl (ExecutionFailure ''connection lost''), d)"

definition read_only :: "tables adapter" where
  "read_only q d =
     (case q of
        Delete_by_id t i \<Rightarrow> (Inl (ExecutionFailure ''read only''), d)
      | _ \<Rightarrow> table_store q d)"

text \<open>
  For the concrete examples: \<open>pluralize.singular\<close> on a regular plural and \<open>_.capitalize\<close> on
  ASCII letters, and the table \<open>users\<close> of the spec's end-to-end example with the columns
  \<open>id\<close>, \<open>name\<close> (required) and \<open>created_at\<close>. The column \<open>id\<close> is given a default, so
  that \<open>name\<close> is the one required field, as in the spec's example.
\<close>

definition drop_plural_s :: "string \<Rightarrow> string" where
  "drop_plural_s s = (if s \<noteq> [] \<and> last s = CHR ''s'' then butlast s else s)"

definition capitalize_ascii :: "string \<Rightarrow> string" where
  "capitalize_ascii s =
     (case s of
        [] \<Rightarrow> []
      | c # cs \<Rightarrow>
          (if (97::nat) \<le> of_char c \<and> of_char c \<le> (122::nat) then char_of (of_char c - (32::nat)) else c)
          # map (\<lambda>d. if (65::nat) \<le> of_char d \<and> of_char d \<le> (90::nat)
                       then char_of (of_char d + (32::nat)) else d) cs)"

definition users_columns :: "column list" where
  "users_columns =
     [\<lparr> Field = ''id'', col_type = ''int'', col_nullable = False, col_key = ''PRI'',
         col_default = Some ''0'', col_extra = ''auto_increment'' \<rparr>,
      \<lparr> Field = ''name'', col_type = ''varchar(255)'', col_nullable = False, col_key = '''',
         col_default = None, col_extra = '''' \<rparr>,
      \<lparr> Field = ''created_at'', col_type = ''timestamp'', col_nullable = True, col_key = '''',
         col_default = Some ''CURRENT_TIMESTAMP'', col_extra = '''' \<rparr>]"

text \<open>The entity \<open>users\<close> with one declared relation, whose table is \<open>addr\<close>.\<close>

definition addr_relation :: relationship where
  "addr_relation = \<lparr> relation_tableName = ''addr'', validateDataForCreate = (\<lambda>h v. None) \<rparr>"

definition users_model :: model where
  "users_model =
     addRelationship ''addr'' addr_relation (Model drop_plural_s capitalize_ascii ''users'' users_columns)"

text \<open>One user, Ann, with one row in the link table \<open>addr\<close>.\<close>

definition ann_state :: "tables state" where
  "ann_state =
     \<lparr> store = [],
       db = [(''users'', [[(''id'', JNum 1), (''name'', JStr ''Ann'')]]),
             (''addr'', [[(''id_user'', JNum 1), (''city'', JStr ''NY'')]])],
       trace = [], pending = [] \<rparr>"

text \<open>One user whose primary key is 0.\<close>

definition zero_state :: "tables state" where
  "zero_state =
     \<lparr> store = [],
       db = [(''users'', [[(''id'', JNum 0), (''name'', JStr ''Zed'')]])],
       trace = [], pending = [] \<rparr>"

text \<open>The empty payload \<open>{}\<close>, and the payload \<open>{"addr": 5}\<close>.\<close>

definition empty_payload :: "tables state" where
  "empty_payload = ann_state \<lparr> store := [Obj []] \<rparr>"

definition number_payload :: "tables state" where
  "number_payload = ann_state \<lparr> store := [Obj [(''addr'', Val (JNum 5))]] \<rparr>"

text \<open>
  The payload \<open>{"name": "Bea", "addr": [{"city": "LA"}]}\<close> for \<open>update\<close>, and the payload
  \<open>{"name": "Bob", "tags": [{"id_tag": 3}]}\<close>, whose key \<open>tags\<close> is no declared relation of
  \<open>users\<close>.
\<close>

definition bea_payload :: "tables state" where
  "bea_payload =
     ann_state \<lparr> store := [Obj [(''name'', Val (JStr ''Bea'')), (''addr'', Ref 1)],
                            Arr [Ref 2],
                            Obj [(''city'', Val (JStr ''LA''))]] \<rparr>"

definition tags_payload :: "tables state" where
  "tags_payload =
     ann_state \<lparr> store := [Obj [(''name'', Val (JStr ''Bob'')), (''tags'', Ref 1)],
                            Arr [Ref 2],
                            Obj [(''id_tag'', Val (JNum 3))]] \<rparr>"

text \<open>
  The payload \<open>{"id": 7, "name": "Bea", "addr": [{"city": "LA"}]}\<close>, and the payload
  \<open>{"addr": [{"city": "LA"}]}\<close>, which lacks the required \<open>name\<close>.
\<close>

definition full_payload :: "tables state" where
  "full_payload =
     ann_state \<lparr> store := [Obj [(''id'', Val (JNum 7)), (''name'', Val (JStr ''Bea'')),
                                 (''addr'', Ref 1)],
                            Arr [Ref 2],
                            Obj [(''city'', Val (JStr ''LA''))]] \<rparr>"


section \<open>The words of the claims\<close>


definition segments :: "string \<Rightarrow> string list" where
  "segments s = str_split CHR '','' s"







text \<open>
  The required fields that the filtered payload lacks, in the claim's words: a required
  field is missing unless it is an updateable field and a key of the payload.
\<close>

definition missing_fields :: "model \<Rightarrow> heap \<Rightarrow> addr \<Rightarrow> string list" where
  "missing_fields m h data =
     filter (\<lambda>field. \<not> (field \<in> set (updateableFields m) \<and> field \<in> fst ` set (props_at h data)))
       (requiredFields m)"









section \<open>Derived field sets\<close>

lemma without_filter: "without xs vs = filter (\<lambda>x. x \<notin> set vs) xs"
  by (induction xs) auto

text \<open>
  C5. For every column list, the constructed entity definition's \<open>updateableFields\<close> are
  the column names, in order, except \<open>id\<close> and \<open>created_at\<close>; its \<open>requiredFields\<close> are the
  names of exactly the columns that are non-nullable and have no default.
\<close>

theorem Model_field_sets:
  "updateableFields (Model singular capitalize nm fs) =
     filter (\<lambda>n. n \<noteq> ''id'' \<and> n \<noteq> ''created_at'') (map Field fs)
   \<and> requiredFields (Model singular capitalize nm fs) =
     map Field (filter (\<lambda>c. \<not> col_nullable c \<and> col_default c = None) fs)"
proof -
  have "columnIsRequired = (\<lambda>c. \<not> col_nullable c \<and> col_default c = None)"
    by (rule ext) (simp add: columnIsRequired_def)
  moreover have "getColumnName = Field"
    by (rule ext) (simp add: getColumnName_def)
  ultimately show ?thesis
    by (simp add: Model_def without_filter)
qed

theorem Model_field_sets_witness:
  "updateableFields (Model drop_plural_s capitalize_ascii ''users'' users_columns) = [''name'']
   \<and> requiredFields (Model drop_plural_s capitalize_ascii ''users'' users_columns) = [''name'']"
  using Model_field_sets [of drop_plural_s capitalize_ascii "''users''" users_columns]
  by (simp add: users_columns_def)

section \<open>The row mapper inverts the aggregation\<close>













lemma segments_nonempty: "segments s \<noteq> []"
  by (cases s) (simp_all add: segments_def)





















section \<open>Reading entities\<close>

text \<open>
  C6 (amended). When the query and the mapping succeed: for every truthy id, \<open>get(id)\<close>
  returns the first element of the mapped result sequence, or \<open>undefined\<close> when there is
  none; with no id (\<open>null\<close>), and also with an id that is falsy (the number 0, the empty
  string), it returns the full mapped sequence.
\<close>

theorem get_result:
  assumes "runQuery run (QueryBuilder_get m id') s = (Inr data, s')"
    and "map_result (rawSQLToModel m) data = Inr result"
  shows "get run m id' s =
           (Inr (if truthy_prim id'
                 then (case result of [] \<Rightarrow> Prim JUndefined | first # rest \<Rightarrow> first)
                 else Array result), s')"
  using assms by (cases result) (simp_all add: get_def array_get_def)

theorem get_result_witness:
  "get table_store users_model (JNum 1) ann_state =
     (Inr (Object [(''id'', Prim (JNum 1)), (''name'', Prim (JStr ''Ann'')), (''addr'', Array [])]),
      ann_state \<lparr> trace := [Get_statement ''users'' [''addr''] (JNum 1)] \<rparr>)"
proof -
  have q: "runQuery table_store (QueryBuilder_get users_model (JNum 1)) ann_state =
             (Inr [[(''id'', JNum 1), (''name'', JStr ''Ann'')]],
              ann_state \<lparr> trace := [Get_statement ''users'' [''addr''] (JNum 1)] \<rparr>)"
    by code_simp
  have r: "map_result (rawSQLToModel users_model) [[(''id'', JNum 1), (''name'', JStr ''Ann'')]] =
             Inr [Object [(''id'', Prim (JNum 1)), (''name'', Prim (JStr ''Ann'')),
                          (''addr'', Array [])]]"
    by code_simp
  show ?thesis using get_result [OF q r] by simp
qed

text \<open>
  The claim as stated covers every id given. The id 0 is given and is falsy: \<open>get(0)\<close>
  returns the sequence, here of the one row whose primary key is 0, not that row.
\<close>

theorem get_zero_id_counterexample:
  "fst (get table_store users_model (JNum 0) zero_state) =
     Inr (Array [Object [(''id'', Prim (JNum 0)), (''name'', Prim (JStr ''Zed'')),
                         (''addr'', Array [])]])"
  by code_simp

section \<open>Deleting an entity\<close>

lemma rows_of_map_set: "rows_of (map_set d t rs) t' = (if t' = t then rs else rows_of d t')"
  by (induction d) (auto simp: rows_of_def)

text \<open>
  C8. When the adapter carries out the statement, \<open>delete(id)\<close> issues exactly one
  statement, the DELETE on the entity's own table filtered on the primary key, changes
  nothing else of the state, and returns \<open>{success: true}\<close>. No statement goes to a link
  table: over the tables in memory every table but the entity's own is left as it was.
\<close>

theorem delete_one_statement:
  assumes "run (Delete_by_id (tableName m) id') (db s) = (Inr ack, d)"
  shows "delete run m id' s =
           (Inr (Object [(''success'', Prim (JBool True))]),
            s \<lparr> db := d, trace := trace s @ [Delete_by_id (tableName m) id'] \<rparr>)
       \<and> fst (delete table_store m id' s') = Inr (Object [(''success'', Prim (JBool True))])
       \<and> (\<forall>t. t \<noteq> tableName m \<longrightarrow>
             rows_of (db (snd (delete table_store m id' s'))) t = rows_of (db s') t)"
  using assms by (simp add: delete_def runQuery_def rows_of_map_set)

theorem delete_one_statement_witness:
  "delete table_store users_model (JNum 1) ann_state =
     (Inr (Object [(''success'', Prim (JBool True))]),
      ann_state \<lparr> db := [(''users'', []),
                         (''addr'', [[(''id_user'', JNum 1), (''city'', JStr ''NY'')]])],
                 trace := [Delete_by_id ''users'' (JNum 1)] \<rparr>)
   \<and> rows_of (db (snd (delete table_store users_model (JNum 1) ann_state))) ''addr'' =
       [[(''id_user'', JNum 1), (''city'', JStr ''NY'')]]"
proof -
  have q: "table_store (Delete_by_id (tableName users_model) (JNum 1)) (db ann_state) =
             (Inr [], [(''users'', []),
                       (''addr'', [[(''id_user'', JNum 1), (''city'', JStr ''NY'')]])])"
    by code_simp
  have t: "tableName users_model = ''users''" by code_simp
  have a: "rows_of (db ann_state) ''addr'' = [[(''id_user'', JNum 1), (''city'', JStr ''NY'')]]"
    by code_simp
  note th = delete_one_statement
              [where run = table_store and m = users_model and s = ann_state and s' = ann_state, OF q]
  have 1: "delete table_store users_model (JNum 1) ann_state =
     (Inr (Object [(''success'', Prim (JBool True))]),
      ann_state \<lparr> db := [(''users'', []),
                         (''addr'', [[(''id_user'', JNum 1), (''city'', JStr ''NY'')]])],
                 trace := [Delete_by_id ''users'' (JNum 1)] \<rparr>)"
    using th [THEN conjunct1] by (simp add: t ann_state_def)
  have 2: "rows_of (db (snd (delete table_store users_model (JNum 1) ann_state))) ''addr'' =
             rows_of (db ann_state) ''addr''"
    using th [THEN conjunct2, THEN conjunct2, rule_format, of "''addr''"] by (simp add: t)
  show ?thesis using 1 2 a by simp
qed

section \<open>Creating and updating\<close>

lemma keys_map_set: "fst ` set (map_set kvs k v) = insert k (fst ` set kvs)"
proof (induction kvs)
  case Nil
  show ?case by simp
next
  case (Cons e kvs)
  obtain k' v' where e: "e = (k', v')" by (cases e)
  show ?case
  proof (cases "k' = k")
    case True
    then show ?thesis using e by simp
  next
    case False
    then show ?thesis using e Cons by (simp add: insert_commute)
  qed
qed

lemma keys_pick_foldl:
  "fst ` set (foldl (\<lambda>result k. case map_of props k of Some v \<Rightarrow> map_set result k v | None \<Rightarrow> result) acc paths)
     = fst ` set acc \<union> {k \<in> set paths. k \<in> fst ` set props}"
proof (induction paths arbitrary: acc)
  case Nil
  then show ?case by simp
next
  case (Cons p paths)
  show ?case
  proof (cases "map_of props p")
    case None
    then have "p \<notin> fst ` set props" by (simp add: map_of_eq_None_iff)
    then show ?thesis using None Cons by auto
  next
    case (Some v)
    then have "p \<in> fst ` set props" by (metis map_of_eq_None_iff option.distinct(1))
    then show ?thesis using Some Cons by (auto simp: keys_map_set)
  qed
qed

lemma keys_pick: "fst ` set (pick props paths) = {k \<in> set paths. k \<in> fst ` set props}"
  by (simp add: pick_def keys_pick_foldl)

lemma missing_fields_eq:
  "filter (\<lambda>field. field \<notin> fst ` set (getValidFields m h data)) (requiredFields m)
     = missing_fields m h data"
  by (simp add: missing_fields_def getValidFields_def keys_pick)

text \<open>
  C2 (amended). For every payload in which a required field is absent from the
  updateable-field-filtered data, \<open>create\<close> fails and issues no statement at all (the
  database, the trace and the pending tasks are as before). The error is
  \<open>InvalidModelInput\<close>, carrying exactly the missing required field names, whenever the
  declared relation payloads of the data are arrays and pass their validation; a relation
  payload that is not an array, or that fails its validation, is reported first.
\<close>

theorem create_missing_required_fields:
  assumes "missing_fields m (store s) data \<noteq> []"
  shows "(\<exists>e. fst (create run m data s) = Inl e)
       \<and> trace (snd (create run m data s)) = trace s
       \<and> db (snd (create run m data s)) = db s
       \<and> pending (snd (create run m data s)) = pending s
       \<and> (\<forall>rels h. getRelationsToUpdate m data JNull (store s) = (Inr rels, h)
                   \<and> validate_for_create m h rels = None
            \<longrightarrow> create run m data s =
                  (Inl (InvalidModelInputError (missing_fields m (store s) data)), s \<lparr> store := h \<rparr>))"
  using assms
  by (simp add: create_def Let_def missing_fields_eq split: prod.splits sum.splits option.splits)

theorem create_missing_required_fields_witness:
  "create table_store users_model 0 empty_payload =
     (Inl (InvalidModelInputError [''name'']), empty_payload)"
proof -
  have 1: "missing_fields users_model (store empty_payload) 0 = [''name'']"
    by code_simp
  have 2: "getRelationsToUpdate users_model 0 JNull (store empty_payload) = (Inr [], [Obj []])"
    by code_simp
  have 3: "validate_for_create users_model [Obj []] [] = None"
    by simp
  have 4: "empty_payload \<lparr> store := [Obj []] \<rparr> = empty_payload"
    by (simp add: empty_payload_def)
  show ?thesis
    using create_missing_required_fields [of users_model empty_payload 0 table_store]
    by (simp add: 1 2 3 4)
qed

text \<open>
  The claim as stated promises \<open>InvalidModelInput\<close> for every payload that lacks a
  required field. The payload \<open>{"addr": 5}\<close> lacks \<open>name\<close>, and \<open>create\<close> fails with the
  \<open>TypeError\<close> of the relation payload, which is looked at first.
\<close>

theorem create_relation_error_first_counterexample:
  "missing_fields users_model (store number_payload) 0 = [''name'']
   \<and> create table_store users_model 0 number_payload =
       (Inl (TypeError ''relation.relationData.map is not a function''), number_payload)"
  by code_simp

text \<open>
  The relations \<open>getRelationsToUpdate\<close> returns are declared ones: a key of the payload that
  is no declared relation is dropped by the filter, so the check \<open>if (!relation)\<close> in
  \<open>create\<close> never fires.
\<close>

lemma signRelationsDataWithSeniorId_names:
  "signRelationsDataWithSeniorId m rels v h = (Inr rels', h') \<Longrightarrow> map fst rels' = map fst rels"
proof (induction rels arbitrary: h rels')
  case Nil
  then show ?case by simp
next
  case (Cons r rels)
  obtain n d where r: "r = (n, d)" by (cases r)
  from Cons.prems r obtain entries a h1 signed where
    "alloc (sign_entries (''id_'' @ name m) v entries h) (Arr entries) = (a, h1)"
    "signRelationsDataWithSeniorId m rels v h1 = (Inr signed, h')"
    "rels' = (n, Ref a) # signed"
    by (auto split: option.splits prod.splits sum.splits)
  then show ?case using Cons.IH r by simp
qed

lemma getRelationsToUpdate_declared:
  assumes "getRelationsToUpdate m data v h = (Inr rels, h')"
  shows "fst ` set rels \<subseteq> fst ` set (relations m)"
proof -
  have "map fst rels =
          filter (\<lambda>relationName. relationName \<in> set (map fst (relations m))) (map fst (props_at h data))"
    using signRelationsDataWithSeniorId_names [OF assms [unfolded getRelationsToUpdate_def]]
    by (simp add: comp_def)
  then have "set (map fst rels) \<subseteq> set (map fst (relations m))"
    by auto
  then show ?thesis by simp
qed

text \<open>What a statement, \<open>get\<close> and \<open>getLast\<close> do to the state: one more statement in the trace.\<close>

lemma runQuery_state:
  "store (snd (runQuery run q s)) = store s"
  "pending (snd (runQuery run q s)) = pending s"
  "trace (snd (runQuery run q s)) = trace s @ [q]"
  by (simp_all add: runQuery_def split: prod.splits)

lemma get_state:
  "store (snd (get run m id' s)) = store s"
  "pending (snd (get run m id' s)) = pending s"
  "trace (snd (get run m id' s)) = trace s @ [QueryBuilder_get m id']"
proof -
  obtain r s' where q: "runQuery run (QueryBuilder_get m id') s = (r, s')"
    by (cases "runQuery run (QueryBuilder_get m id') s")
  have s': "store s' = store s" "pending s' = pending s"
           "trace s' = trace s @ [QueryBuilder_get m id']"
    using runQuery_state [of run "QueryBuilder_get m id'" s] q by simp_all
  show "store (snd (get run m id' s)) = store s"
    using s' by (simp add: get_def q split: sum.splits)
  show "pending (snd (get run m id' s)) = pending s"
    using s' by (simp add: get_def q split: sum.splits)
  show "trace (snd (get run m id' s)) = trace s @ [QueryBuilder_get m id']"
    using s' by (simp add: get_def q split: sum.splits)
qed


lemma override_all_trace: "\<exists>rest. trace (override_all run m id' rels t) = trace t @ rest"
proof (induction rels arbitrary: t)
  case Nil
  then show ?case by simp
next
  case (Cons r rels)
  obtain n v where r: "r = (n, v)" by (cases r)
  show ?case
  proof (cases "map_of (relations m) n")
    case None
    then show ?thesis using Cons r by simp
  next
    case (Some relation)
    obtain res t' where q: "runQuery run (QueryBuilder_deleteExistingRelation m id' relation) t = (res, t')"
      by (cases "runQuery run (QueryBuilder_deleteExistingRelation m id' relation) t")
    have r1: "trace t' = trace t @ [QueryBuilder_deleteExistingRelation m id' relation]"
      using runQuery_state(3) [of run "QueryBuilder_deleteExistingRelation m id' relation" t] q
      by simp
    show ?thesis
    proof (cases res)
      case (Inl e)
      from Cons [of t'] obtain r2 where "trace (override_all run m id' rels t') = trace t' @ r2"
        by auto
      then show ?thesis using Some r q Inl r1 by simp
    next
      case (Inr ack')
      let ?t = "t' \<lparr> pending := pending t' @ QueryBuilder_createRelationEntries m relation (store t') v \<rparr>"
      from Cons [of ?t] obtain r2 where "trace (override_all run m id' rels ?t) = trace ?t @ r2"
        by auto
      then show ?thesis using Some r q Inr r1 by simp
    qed
  qed
qed

text \<open>
  When \<open>update\<close> gets as far as its UPDATE, the statement is built from all properties of
  the payload as it then is, not from the updateable fields.
\<close>

lemma update_statement_from_payload:
  assumes "getRelationsToUpdate m data id' (delete_prop (store s) data ''id'') = (Inr rels, h)"
    and "validate_for_update m h rels = None"
    and "getValidFields m (delete_prop (store s) data ''id'') data \<noteq> []"
  shows "\<exists>rest. trace (snd (update run m id' data s)) =
           trace s @ QueryBuilder_update m id' (props_at h data) # rest"
proof (cases "run (QueryBuilder_update m id' (props_at h data)) (db s)")
  case (Pair r d)
  show ?thesis
  proof (cases r)
    case (Inl e)
    then show ?thesis using assms Pair
      by (simp add: update_def Let_def runQuery_def)
  next
    case (Inr ack)
    let ?s1 = "s \<lparr> store := h, db := d, trace := trace s @ [QueryBuilder_update m id' (props_at h data)] \<rparr>"
    obtain r2 where r2: "trace (override_all run m id' rels ?s1) = trace ?s1 @ r2"
      using override_all_trace [of run m id' rels ?s1] by auto
    then show ?thesis using assms Pair Inr
      by (simp add: update_def Let_def runQuery_def get_state)
  qed
qed

text \<open>
  C3. The claim is that the SET clause covers the keys of the updateable-field subset of
  the payload and no other key. On the code, \<open>update(1, {"name": "Bea", "addr": [...]})\<close>
  issues an UPDATE whose fields are the whole payload, the relation key \<open>addr\<close> included,
  while the updateable-field subset is \<open>name\<close> alone.
\<close>

theorem update_sets_relation_key:
  "trace (snd (update table_store users_model (JStr ''1'') 0 bea_payload)) =
     [Update_statement ''users'' (JStr ''1'') [(''name'', Val (JStr ''Bea'')), (''addr'', Ref 1)],
      Delete_relation_statement ''addr'' ''id_user'' (JStr ''1''),
      Get_statement ''users'' [''addr''] (JStr ''1'')]
   \<and> getValidFields users_model (store bea_payload) 0 = [(''name'', Val (JStr ''Bea''))]"
  by code_simp

text \<open>
  C7. The claim is that a payload naming an undeclared relation is refused with an
  \<open>UnknownRelation\<close> error. On the code, \<open>create({"name": "Bob", "tags": [...]})\<close> on an
  entity without a relation \<open>tags\<close> succeeds: the row is inserted with \<open>name\<close> only, no
  statement mentions \<open>tags\<close>, and the new entity is returned.
\<close>

theorem create_ignores_undeclared_relation:
  "fst (create table_store users_model 0 tags_payload) =
     Inr (Object [(''id'', Prim (JNum 2)), (''name'', Prim (JStr ''Bob'')), (''addr'', Array [])])
   \<and> trace (snd (create table_store users_model 0 tags_payload)) =
     [Create_statement ''users'' [(''name'', Val (JStr ''Bob''))],
      Select_last ''users'',
      Get_statement ''users'' [''addr''] (JNum 2)]"
  by code_simp

section \<open>The payload is changed in place\<close>

































text \<open>
  The relation writes of \<open>update\<close>, on \<open>{"id": 7, "name": "Bea", "addr": [{"city": "LA"}]}\<close>
  for the user 1: the DELETE on the link table is issued before the SELECT of the final
  \<open>get\<close>, the INSERT of the new row is left pending, and once the pending statements have
  run the link table holds the new row in place of the old one.
\<close>

lemma update_relation_writes_example:
  "trace (snd (update table_store users_model (JStr ''1'') 0 full_payload)) =
     [Update_statement ''users'' (JStr ''1'') [(''name'', Val (JStr ''Bea'')), (''addr'', Ref 1)],
      Delete_relation_statement ''addr'' ''id_user'' (JStr ''1''),
      Get_statement ''users'' [''addr''] (JStr ''1'')]"
  "pending (snd (update table_store users_model (JStr ''1'') 0 full_payload)) =
     [Create_relation_entry ''addr''
        [(''city'', Val (JStr ''LA'')), (''id_user'', Val (JStr ''1''))]]"
  "rows_of (db (settle table_store (snd (update table_store users_model (JStr ''1'') 0 full_payload))))
     ''addr'' = [[(''city'', JStr ''LA''), (''id_user'', JStr ''1'')]]"
  by code_simp+

section \<open>The responses of the routes\<close>

text \<open>
  C9 (amended). When the lookup for an \<open>:id\<close> route yields no object, \<open>GET\<close> responds 404
  with the body \<open>{success: false, status: "Not found"}\<close>, while \<open>PUT\<close> and \<open>DELETE\<close> respond
  404 through \<open>sendStatus\<close>, whose body is the status text \<open>Not Found\<close>; and every error
  thrown by the CRUD method a handler calls (the lookup included) becomes a 500 response
  whose body is the error's message.
\<close>

theorem routes_not_found_and_errors:
  "(\<forall>data s'. get run m (JStr (params_id req)) s = (Inr data, s') \<and> \<not> truthy data \<longrightarrow>
        get_one_handler run m req s =
          (\<lparr> statusCode = 404,
             body = Json (Object [(''success'', Prim (JBool False)),
                                  (''status'', Prim (JStr ''Not found''))]) \<rparr>, s')
      \<and> put_handler run m req s = (\<lparr> statusCode = 404, body = Text ''Not Found'' \<rparr>, s')
      \<and> delete_handler run m req s = (\<lparr> statusCode = 404, body = Text ''Not Found'' \<rparr>, s'))
   \<and> (\<forall>err s'. get run m (JStr (params_id req)) s = (Inl err, s') \<longrightarrow>
        get_one_handler run m req s = (\<lparr> statusCode = 500, body = Message err \<rparr>, s')
      \<and> put_handler run m req s = (\<lparr> statusCode = 500, body = Message err \<rparr>, s')
      \<and> delete_handler run m req s = (\<lparr> statusCode = 500, body = Message err \<rparr>, s'))
   \<and> (\<forall>err s'. get run m JNull s = (Inl err, s') \<longrightarrow>
        get_all_handler run m req s = (\<lparr> statusCode = 500, body = Message err \<rparr>, s'))
   \<and> (\<forall>err s'. create run m (req_body req) s = (Inl err, s') \<longrightarrow>
        post_handler run m req s = (\<lparr> statusCode = 500, body = Message err \<rparr>, s'))
   \<and> (\<forall>target s' err s''. get run m (JStr (params_id req)) s = (Inr target, s') \<and> truthy target \<longrightarrow>
        (update run m (JStr (params_id req)) (req_body req) s' = (Inl err, s'') \<longrightarrow>
           put_handler run m req s = (\<lparr> statusCode = 500, body = Message err \<rparr>, s''))
      \<and> (delete run m (JStr (params_id req)) s' = (Inl err, s'') \<longrightarrow>
           delete_handler run m req s = (\<lparr> statusCode = 500, body = Message err \<rparr>, s'')))"
  by (simp add: get_one_handler_def put_handler_def delete_handler_def get_all_handler_def
        post_handler_def sendStatus_def status_message_def)

theorem routes_not_found_and_errors_witness:
  "fst (get_one_handler table_store users_model \<lparr> params_id = ''9'', req_body = 0 \<rparr> empty_payload) =
     \<lparr> statusCode = 404,
       body = Json (Object [(''success'', Prim (JBool False)),
                            (''status'', Prim (JStr ''Not found''))]) \<rparr>
   \<and> fst (delete_handler table_store users_model \<lparr> params_id = ''9'', req_body = 0 \<rparr> empty_payload) =
     \<lparr> statusCode = 404, body = Text ''Not Found'' \<rparr>
   \<and> fst (get_one_handler offline users_model \<lparr> params_id = ''1'', req_body = 0 \<rparr> empty_payload) =
     \<lparr> statusCode = 500, body = Message (ExecutionFailure ''connection lost'') \<rparr>
   \<and> fst (get_all_handler offline users_model \<lparr> params_id = [], req_body = 0 \<rparr> empty_payload) =
     \<lparr> statusCode = 500, body = Message (ExecutionFailure ''connection lost'') \<rparr>
   \<and> fst (post_handler table_store users_model \<lparr> params_id = [], req_body = 0 \<rparr> empty_payload) =
     \<lparr> statusCode = 500, body = Message (InvalidModelInputError [''name'']) \<rparr>
   \<and> fst (put_handler table_store users_model \<lparr> params_id = ''1'', req_body = 0 \<rparr> number_payload) =
     \<lparr> statusCode = 500, body = Message (TypeError ''relation.relationData.map is not a function'') \<rparr>
   \<and> fst (delete_handler read_only users_model \<lparr> params_id = ''1'', req_body = 0 \<rparr> empty_payload) =
     \<lparr> statusCode = 500, body = Message (ExecutionFailure ''read only'') \<rparr>"
proof -
  let ?nine = "\<lparr> params_id = ''9'', req_body = 0 \<rparr>"
  let ?one = "\<lparr> params_id = ''1'', req_body = 0 \<rparr>"
  let ?none = "\<lparr> params_id = [], req_body = 0 \<rparr>"
  let ?ann = "Object [(''id'', Prim (JNum 1)), (''name'', Prim (JStr ''Ann'')), (''addr'', Array [])]"
  have missing: "get table_store users_model (JStr (params_id ?nine)) empty_payload =
          (Inr (Prim JUndefined),
           empty_payload \<lparr> trace := [Get_statement ''users'' [''addr''] (JStr ''9'')] \<rparr>)"
    by code_simp
  have lost1: "get offline users_model (JStr (params_id ?one)) empty_payload =
          (Inl (ExecutionFailure ''connection lost''),
           empty_payload \<lparr> trace := [Get_statement ''users'' [''addr''] (JStr ''1'')] \<rparr>)"
    by code_simp
  have lost2: "get offline users_model JNull empty_payload =
          (Inl (ExecutionFailure ''connection lost''),
           empty_payload \<lparr> trace := [Get_statement ''users'' [''addr''] JNull] \<rparr>)"
    by code_simp
  have invalid: "create table_store users_model (req_body ?none) empty_payload =
          (Inl (InvalidModelInputError [''name'']), empty_payload)"
    by code_simp
  have found: "get table_store users_model (JStr (params_id ?one)) number_payload =
          (Inr ?ann, number_payload \<lparr> trace := [Get_statement ''users'' [''addr''] (JStr ''1'')] \<rparr>)"
    by code_simp
  have bad: "update table_store users_model (JStr (params_id ?one)) (req_body ?one)
               (number_payload \<lparr> trace := [Get_statement ''users'' [''addr''] (JStr ''1'')] \<rparr>) =
          (Inl (TypeError ''relation.relationData.map is not a function''),
           number_payload \<lparr> trace := [Get_statement ''users'' [''addr''] (JStr ''1'')] \<rparr>)"
    by code_simp
  have found': "get read_only users_model (JStr (params_id ?one)) empty_payload =
          (Inr ?ann, empty_payload \<lparr> trace := [Get_statement ''users'' [''addr''] (JStr ''1'')] \<rparr>)"
    by code_simp
  have refused: "delete read_only users_model (JStr (params_id ?one))
               (empty_payload \<lparr> trace := [Get_statement ''users'' [''addr''] (JStr ''1'')] \<rparr>) =
          (Inl (ExecutionFailure ''read only''),
           empty_payload \<lparr> trace := [Get_statement ''users'' [''addr''] (JStr ''1''),
                                       Delete_by_id ''users'' (JStr ''1'')] \<rparr>)"
    by code_simp
  have t: "truthy ?ann" "\<not> truthy (Prim JUndefined)" by simp_all
  note r1 = routes_not_found_and_errors [of table_store users_model ?nine empty_payload]
  note r2 = routes_not_found_and_errors [of offline users_model ?one empty_payload]
  note r3 = routes_not_found_and_errors [of offline users_model ?none empty_payload]
  note r4 = routes_not_found_and_errors [of table_store users_model ?none empty_payload]
  note r5 = routes_not_found_and_errors [of table_store users_model ?one number_payload]
  note r6 = routes_not_found_and_errors [of read_only users_model ?one empty_payload]
  have 1: "fst (get_one_handler table_store users_model ?nine empty_payload) =
     \<lparr> statusCode = 404,
       body = Json (Object [(''success'', Prim (JBool False)),
                            (''status'', Prim (JStr ''Not found''))]) \<rparr>"
    using r1 missing t by simp
  have 2: "fst (delete_handler table_store users_model ?nine empty_payload) =
     \<lparr> statusCode = 404, body = Text ''Not Found'' \<rparr>"
    using r1 missing t by simp
  have 3: "fst (get_one_handler offline users_model ?one empty_payload) =
     \<lparr> statusCode = 500, body = Message (ExecutionFailure ''connection lost'') \<rparr>"
    using r2 lost1 by simp
  have 4: "fst (get_all_handler offline users_model ?none empty_payload) =
     \<lparr> statusCode = 500, body = Message (ExecutionFailure ''connection lost'') \<rparr>"
    using r3 lost2 by simp
  have 5: "fst (post_handler table_store users_model ?none empty_payload) =
     \<lparr> statusCode = 500, body = Message (InvalidModelInputError [''name'']) \<rparr>"
    using r4 invalid by simp
  have 6: "fst (put_handler table_store users_model ?one number_payload) =
     \<lparr> statusCode = 500, body = Message (TypeError ''relation.relationData.map is not a function'') \<rparr>"
    using r5 found bad t by simp
  have 7: "fst (delete_handler read_only users_model ?one empty_payload) =
     \<lparr> statusCode = 500, body = Message (ExecutionFailure ''read only'') \<rparr>"
    using r6 found' refused t by simp
  show ?thesis using 1 2 3 4 5 6 7 by simp
qed

text \<open>
  The claim as stated gives the 404 of \<open>PUT\<close> and \<open>DELETE\<close> an empty body. \<open>PUT /users/9\<close>
  for a user that does not exist answers through \<open>res.sendStatus(404)\<close>, and the body is
  the text \<open>Not Found\<close>.
\<close>

theorem put_not_found_body_counterexample:
  "fst (put_handler table_store users_model \<lparr> params_id = ''9'', req_body = 0 \<rparr> empty_payload) =
     \<lparr> statusCode = 404, body = Text ''Not Found'' \<rparr>
   \<and> body (fst (put_handler table_store users_model \<lparr> params_id = ''9'', req_body = 0 \<rparr> empty_payload))
       \<noteq> Text []"
  by code_simp

end
